theory Spec2Isabelle
  imports Complex_Main "HOL-Library.Word"
begin

unbundle bit_operations_syntax

section \<open>Python values, exceptions and strings\<close>

text \<open>
  The webhook receiver \<^verbatim>\<open>app.py\<close> is modelled function by function. A Python
  \<^verbatim>\<open>str\<close> is a \<^typ>\<open>string\<close>, a \<^verbatim>\<open>bytes\<close> object a list of 8-bit words. An
  exception that leaves a function is the \<open>Inl\<close> branch of its result.
\<close>

datatype py_exn = KeyError | TypeError | AttributeError | ValueError | OverflowError

type_synonym byte = "8 word"
type_synonym bytes = "byte list"

text \<open>\<^verbatim>\<open>s.split(sep)\<close> with a one-character separator: never an empty list.\<close>

fun split_on :: "char \<Rightarrow> string \<Rightarrow> string list" where
  "split_on sep [] = [[]]"
| "split_on sep (c # cs) =
     (if c = sep then [] # split_on sep cs
      else (case split_on sep cs of
              [] \<Rightarrow> [[c]]
            | w # ws \<Rightarrow> (c # w) # ws))"

text \<open>\<^verbatim>\<open>str.encode()\<close>: UTF-8, for the code points a \<^typ>\<open>char\<close> can hold.\<close>

definition encode_char :: "char \<Rightarrow> bytes" where
  "encode_char c =
     (let n = (of_char c :: nat)
      in if n < 128 then [of_nat n]
         else [of_nat (192 + n div 64), of_nat (128 + n mod 64)])"

definition encode :: "string \<Rightarrow> bytes" where
  "encode s = concat (map encode_char s)"

section \<open>SHA-1 and HMAC (hashlib, hmac)\<close>

text \<open>
  \<^verbatim>\<open>hmac.new(key, msg=..., digestmod=hashlib.sha1)\<close> belongs to the Python standard
  library; it is written out here after FIPS 180-4 and RFC 2104 so that the model runs.
\<close>

fun be_bytes :: "nat \<Rightarrow> nat \<Rightarrow> bytes" where
  "be_bytes 0 v = []"
| "be_bytes (Suc n) v = be_bytes n (v div 256) @ [of_nat (v mod 256)]"

definition sha1_pad :: "bytes \<Rightarrow> bytes" where
  "sha1_pad msg =
     msg @ [0x80] @ replicate ((119 - length msg mod 64) mod 64) 0
       @ be_bytes 8 (8 * length msg)"

fun be_words :: "bytes \<Rightarrow> 32 word list" where
  "be_words (a # b # c # d # rest) =
     (push_bit 24 (ucast a) OR push_bit 16 (ucast b) OR push_bit 8 (ucast c) OR ucast d)
       # be_words rest"
| "be_words _ = []"

fun chunks :: "nat \<Rightarrow> 'a list \<Rightarrow> 'a list list" where
  "chunks n [] = []"
| "chunks n (x # xs) =
     (if n = 0 then [] else take n (x # xs) # chunks n (drop n (x # xs)))"

definition sha1_schedule :: "32 word list \<Rightarrow> 32 word list" where
  "sha1_schedule ws =
     fold (\<lambda>t w. w @ [word_rotl 1
                        (w ! (t - 3) XOR w ! (t - 8) XOR w ! (t - 14) XOR w ! (t - 16))])
       [16..<80] ws"

type_synonym sha1_state = "32 word \<times> 32 word \<times> 32 word \<times> 32 word \<times> 32 word"

definition sha1_f :: "nat \<Rightarrow> 32 word \<Rightarrow> 32 word \<Rightarrow> 32 word \<Rightarrow> 32 word" where
  "sha1_f t b c d =
     (if t < 20 then (b AND c) OR (NOT b AND d)
      else if t < 40 then b XOR c XOR d
      else if t < 60 then (b AND c) OR (b AND d) OR (c AND d)
      else b XOR c XOR d)"

definition sha1_k :: "nat \<Rightarrow> 32 word" where
  "sha1_k t =
     (if t < 20 then 0x5A827999 else if t < 40 then 0x6ED9EBA1
      else if t < 60 then 0x8F1BBCDC else 0xCA62C1D6)"

definition sha1_round :: "32 word list \<Rightarrow> nat \<Rightarrow> sha1_state \<Rightarrow> sha1_state" where
  "sha1_round w t s =
     (case s of (a, b, c, d, e) \<Rightarrow>
        (word_rotl 5 a + sha1_f t b c d + e + sha1_k t + w ! t, a, word_rotl 30 b, c, d))"

definition sha1_block :: "sha1_state \<Rightarrow> bytes \<Rightarrow> sha1_state" where
  "sha1_block h blk =
     (case h of (h0, h1, h2, h3, h4) \<Rightarrow>
        (case fold (sha1_round (sha1_schedule (be_words blk))) [0..<80] h of
           (a, b, c, d, e) \<Rightarrow> (h0 + a, h1 + b, h2 + c, h3 + d, h4 + e)))"

definition be32 :: "32 word \<Rightarrow> bytes" where
  "be32 w = [ucast (drop_bit 24 w), ucast (drop_bit 16 w), ucast (drop_bit 8 w), ucast w]"

definition sha1 :: "bytes \<Rightarrow> bytes" where
  "sha1 msg =
     (case fold (\<lambda>blk h. sha1_block h blk) (chunks 64 (sha1_pad msg))
             (0x67452301, 0xEFCDAB89, 0x98BADCFE, 0x10325476, 0xC3D2E1F0) of
        (h0, h1, h2, h3, h4) \<Rightarrow> concat (map be32 [h0, h1, h2, h3, h4]))"

definition hmac_sha1 :: "bytes \<Rightarrow> bytes \<Rightarrow> bytes" where
  "hmac_sha1 key msg =
     (let k0 = (if length key > 64 then sha1 key else key);
          k = k0 @ replicate (64 - length k0) 0
      in sha1 (map (\<lambda>b. b XOR 0x5C) k @ sha1 (map (\<lambda>b. b XOR 0x36) k @ msg)))"

text \<open>\<^verbatim>\<open>mac.hexdigest()\<close>: two lower-case hexadecimal digits for each byte.\<close>

definition hex_digit :: "nat \<Rightarrow> char" where
  "hex_digit n = (''0123456789abcdef'' ! (n mod 16))"

definition hex_byte :: "byte \<Rightarrow> string" where
  "hex_byte b = [hex_digit (unat b div 16), hex_digit (unat b mod 16)]"

definition hexdigest :: "bytes \<Rightarrow> string" where
  "hexdigest bs = concat (map hex_byte bs)"

section \<open>The signature verifier\<close>

text \<open>
  \<^verbatim>\<open>hmac.compare_digest(a, b)\<close> on two \<^verbatim>\<open>str\<close> arguments: equality, and a
  \<^verbatim>\<open>TypeError\<close> when either holds a character outside ASCII.
\<close>

definition is_ascii :: "string \<Rightarrow> bool" where
  "is_ascii s = list_all (\<lambda>c. (of_char c :: nat) < 128) s"

definition compare_digest :: "string \<Rightarrow> string \<Rightarrow> py_exn + bool" where
  "compare_digest a b = (if is_ascii a \<and> is_ascii b then Inr (a = b) else Inl TypeError)"

text \<open>
  \<^verbatim>\<open>verify_signature\<close> (app.py, lines 23 to 39). \<^verbatim>\<open>SECRET_TOKEN\<close> is a module
  global read from the environment and is passed as the first argument; the header is
  \<open>None\<close> when the request does not carry it. The tuple assignment
  \<^verbatim>\<open>sha_name, signature = signature_header.split("=")\<close> raises \<^verbatim>\<open>ValueError\<close>
  unless the split has exactly two parts, and the function catches it.
\<close>

definition verify_signature :: "string \<Rightarrow> bytes \<Rightarrow> string option \<Rightarrow> py_exn + bool" where
  "verify_signature SECRET_TOKEN payload_bytes signature_header =
     (case signature_header of
        None \<Rightarrow> Inr True
      | Some hdr \<Rightarrow>
          if SECRET_TOKEN = [] \<or> hdr = [] then Inr True
          else (case split_on CHR ''='' hdr of
                  [sha_name, signature] \<Rightarrow>
                    if sha_name \<noteq> ''sha1'' then Inr False
                    else compare_digest
                           (hexdigest (hmac_sha1 (encode SECRET_TOKEN) payload_bytes)) signature
                | _ \<Rightarrow> Inr False))"

section \<open>Dates and times (the datetime module)\<close>

text \<open>
  A \<^verbatim>\<open>datetime\<close> object. \<open>tzinfo\<close> is the UTC offset of a fixed-offset
  \<^verbatim>\<open>timezone\<close> in microseconds, \<open>None\<close> for a naive value.
\<close>

record datetime =
  year :: int
  month :: int
  day :: int
  hour :: int
  minute :: int
  second :: int
  microsecond :: int
  tzinfo :: "int option"

definition is_leap :: "int \<Rightarrow> bool" where
  "is_leap y = (y mod 4 = 0 \<and> (y mod 100 \<noteq> 0 \<or> y mod 400 = 0))"

definition DAYS_IN_MONTH :: "int list" where
  "DAYS_IN_MONTH = [31, 28, 31, 30, 31, 30, 31, 31, 30, 31, 30, 31]"

definition DAYS_BEFORE_MONTH :: "int list" where
  "DAYS_BEFORE_MONTH = [0, 31, 59, 90, 120, 151, 181, 212, 243, 273, 304, 334]"

text \<open>Both tables are read at months 1 to 12 only.\<close>

definition days_in_month :: "int \<Rightarrow> int \<Rightarrow> int" where
  "days_in_month y m =
     (if m = 2 \<and> is_leap y then 29 else DAYS_IN_MONTH ! nat (m - 1))"

definition days_before_year :: "int \<Rightarrow> int" where
  "days_before_year y =
     (let y1 = y - 1 in y1 * 365 + y1 div 4 - y1 div 100 + y1 div 400)"

definition days_before_month :: "int \<Rightarrow> int \<Rightarrow> int" where
  "days_before_month y m =
     DAYS_BEFORE_MONTH ! nat (m - 1) + (if m > 2 \<and> is_leap y then 1 else 0)"

definition ymd2ord :: "int \<Rightarrow> int \<Rightarrow> int \<Rightarrow> int" where
  "ymd2ord y m d = days_before_year y + days_before_month y m + d"

definition DI400Y :: int where "DI400Y = 146097"
definition DI100Y :: int where "DI100Y = 36524"
definition DI4Y :: int where "DI4Y = 1461"
definition MAXORDINAL :: int where "MAXORDINAL = 3652059"

text \<open>
  \<^verbatim>\<open>_ord2ymd\<close>: the date of a proleptic Gregorian ordinal, 1 being 0001-01-01. Its
  last step, from the day of the year (counted from 0) to month and day, is
  \<open>month_day\<close>: a first guess of the month, corrected when it is one too high.
\<close>

definition month_day :: "bool \<Rightarrow> int \<Rightarrow> int \<times> int" where
  "month_day leapyear n =
     (let m = (n + 50) div 32;
          preceding = DAYS_BEFORE_MONTH ! nat (m - 1) + (if m > 2 \<and> leapyear then 1 else 0)
      in if preceding > n
         then (m - 1,
               n - (preceding - (DAYS_IN_MONTH ! nat (m - 2)
                                  + (if m - 1 = 2 \<and> leapyear then 1 else 0))) + 1)
         else (m, n - preceding + 1))"

definition ord2ymd :: "int \<Rightarrow> int \<times> int \<times> int" where
  "ord2ymd n0 =
     (let n = n0 - 1;
          n400 = n div DI400Y; n = n mod DI400Y;
          n100 = n div DI100Y; n = n mod DI100Y;
          n4 = n div DI4Y; n = n mod DI4Y;
          n1 = n div 365; n = n mod 365;
          y = n400 * 400 + 1 + n100 * 100 + n4 * 4 + n1
      in if n1 = 4 \<or> n100 = 4 then (y - 1, 12, 31)
         else (case month_day (n1 = 3 \<and> (n4 \<noteq> 24 \<or> n100 = 3)) n of
                 (m, d) \<Rightarrow> (y, m, d)))"

subsection \<open>\<^verbatim>\<open>datetime.fromisoformat\<close>\<close>

text \<open>
  The format the library documents for \<^verbatim>\<open>fromisoformat\<close>:
  \<^verbatim>\<open>YYYY-MM-DD[*HH[:MM[:SS[.fff[fff]]]][+HH:MM[:SS[.ffffff]]]]\<close>, every number in
  ASCII digits. Anything else is a \<^verbatim>\<open>ValueError\<close>, as are field values that the
  \<^verbatim>\<open>datetime\<close> and \<^verbatim>\<open>timezone\<close> constructors refuse.
\<close>

definition digit_val :: "char \<Rightarrow> int option" where
  "digit_val c =
     (let n = (of_char c :: nat)
      in if 48 \<le> n \<and> n \<le> 57 then Some (int n - 48) else None)"

fun parse_digits :: "int \<Rightarrow> string \<Rightarrow> int option" where
  "parse_digits acc [] = Some acc"
| "parse_digits acc (c # cs) =
     (case digit_val c of None \<Rightarrow> None | Some d \<Rightarrow> parse_digits (acc * 10 + d) cs)"

fun two_digits :: "string \<Rightarrow> (int \<times> string) option" where
  "two_digits (a # b # rest) =
     (case parse_digits 0 [a, b] of None \<Rightarrow> None | Some v \<Rightarrow> Some (v, rest))"
| "two_digits _ = None"

definition parse_isoformat_date :: "string \<Rightarrow> (int \<times> int \<times> int) option" where
  "parse_isoformat_date dstr =
     (if length dstr \<noteq> 10 \<or> dstr ! 4 \<noteq> CHR ''-'' \<or> dstr ! 7 \<noteq> CHR ''-'' then None
      else (case (parse_digits 0 (take 4 dstr), parse_digits 0 (take 2 (drop 5 dstr)),
                  parse_digits 0 (drop 8 dstr)) of
              (Some y, Some m, Some d) \<Rightarrow> Some (y, m, d)
            | _ \<Rightarrow> None))"

definition parse_fraction :: "string \<Rightarrow> int option" where
  "parse_fraction ff =
     (if length ff = 3 then map_option (\<lambda>f. f * 1000) (parse_digits 0 ff)
      else if length ff = 6 then parse_digits 0 ff
      else None)"

definition parse_hh_mm_ss_ff :: "string \<Rightarrow> (int \<times> int \<times> int \<times> int) option" where
  "parse_hh_mm_ss_ff tstr =
     (case two_digits tstr of
        None \<Rightarrow> None
      | Some (hh, r1) \<Rightarrow>
          (case r1 of
             [] \<Rightarrow> Some (hh, 0, 0, 0)
           | c1 # r1' \<Rightarrow>
               if c1 \<noteq> CHR '':'' then None
               else (case two_digits r1' of
                       None \<Rightarrow> None
                     | Some (mm, r2) \<Rightarrow>
                         (case r2 of
                            [] \<Rightarrow> Some (hh, mm, 0, 0)
                          | c2 # r2' \<Rightarrow>
                              if c2 \<noteq> CHR '':'' then None
                              else (case two_digits r2' of
                                      None \<Rightarrow> None
                                    | Some (ss, r3) \<Rightarrow>
                                        (case r3 of
                                           [] \<Rightarrow> Some (hh, mm, ss, 0)
                                         | c3 # ff \<Rightarrow>
                                             if c3 \<noteq> CHR ''.'' then None
                                             else map_option (\<lambda>f. (hh, mm, ss, f))
                                                    (parse_fraction ff)))))))"

definition is_sign :: "char \<Rightarrow> bool" where
  "is_sign c = (c = CHR ''+'' \<or> c = CHR ''-'')"

text \<open>The time part: the clock fields and the offset in microseconds, if any.\<close>

definition parse_isoformat_time ::
  "string \<Rightarrow> ((int \<times> int \<times> int \<times> int) \<times> int option) option" where
  "parse_isoformat_time tstr =
     (let timestr = takeWhile (\<lambda>c. \<not> is_sign c) tstr;
          tzpart = dropWhile (\<lambda>c. \<not> is_sign c) tstr
      in case parse_hh_mm_ss_ff timestr of
           None \<Rightarrow> None
         | Some comps \<Rightarrow>
             (case tzpart of
                [] \<Rightarrow> Some (comps, None)
              | sign # tzstr \<Rightarrow>
                  if length tzstr \<noteq> 5 \<and> length tzstr \<noteq> 8 \<and> length tzstr \<noteq> 15 then None
                  else (case parse_hh_mm_ss_ff tzstr of
                          None \<Rightarrow> None
                        | Some (h, m, s, us) \<Rightarrow>
                            let td = ((h * 3600 + m * 60 + s) * 1000000 + us)
                                       * (if sign = CHR ''-'' then - 1 else 1)
                            in if \<bar>td\<bar> < 86400 * 1000000 then Some (comps, Some td)
                               else None)))"

definition valid_fields :: "datetime \<Rightarrow> bool" where
  "valid_fields dt =
     (1 \<le> year dt \<and> year dt \<le> 9999 \<and> 1 \<le> month dt \<and> month dt \<le> 12
      \<and> 1 \<le> day dt \<and> day dt \<le> days_in_month (year dt) (month dt)
      \<and> 0 \<le> hour dt \<and> hour dt \<le> 23 \<and> 0 \<le> minute dt \<and> minute dt \<le> 59
      \<and> 0 \<le> second dt \<and> second dt \<le> 59
      \<and> 0 \<le> microsecond dt \<and> microsecond dt \<le> 999999)"

definition fromisoformat :: "string \<Rightarrow> py_exn + datetime" where
  "fromisoformat date_string =
     (case parse_isoformat_date (take 10 date_string) of
        None \<Rightarrow> Inl ValueError
      | Some (y, m, d) \<Rightarrow>
          (case (if length date_string = 10 then Some ((0, 0, 0, 0), None)
                 else parse_isoformat_time (drop 11 date_string)) of
             None \<Rightarrow> Inl ValueError
           | Some ((hh, mm, ss, us), tz) \<Rightarrow>
               let dt = \<lparr>year = y, month = m, day = d, hour = hh, minute = mm,
                         second = ss, microsecond = us, tzinfo = tz\<rparr>
               in if valid_fields dt then Inr dt else Inl ValueError))"

subsection \<open>\<^verbatim>\<open>astimezone(timezone.utc)\<close>\<close>

text \<open>
  The number of microseconds from 0001-01-01T00:00 to the wall-clock reading of a
  \<^verbatim>\<open>datetime\<close>, disregarding its offset.
\<close>

definition wall_us :: "datetime \<Rightarrow> int" where
  "wall_us dt =
     ((ymd2ord (year dt) (month dt) (day dt) - 1) * 86400
        + hour dt * 3600 + minute dt * 60 + second dt) * 1000000 + microsecond dt"

text \<open>
  \<^verbatim>\<open>dt.astimezone(timezone.utc)\<close>. A value that already carries \<^verbatim>\<open>timezone.utc\<close>
  is returned as it is. A naive value is taken as local time of the host: the first
  argument stands for \<^verbatim>\<open>time.localtime\<close> and gives the host's offset from UTC, in
  seconds, at that local time. The subtraction raises \<^verbatim>\<open>OverflowError\<close> when
  the result leaves the years 1 to 9999.
\<close>

definition astimezone_utc :: "(datetime \<Rightarrow> int) \<Rightarrow> datetime \<Rightarrow> py_exn + datetime" where
  "astimezone_utc local_gmtoff dt =
     (if tzinfo dt = Some 0 then Inr dt
      else
        let myoffset = (case tzinfo dt of
                          None \<Rightarrow> local_gmtoff dt * 1000000
                        | Some off \<Rightarrow> off);
            t = wall_us dt - myoffset;
            days = t div (86400 * 1000000) + 1;
            secs = (t mod (86400 * 1000000)) div 1000000
        in if 0 < days \<and> days \<le> MAXORDINAL
           then (case ord2ymd days of
                   (y, m, d) \<Rightarrow>
                     Inr \<lparr>year = y, month = m, day = d, hour = secs div 3600,
                          minute = (secs mod 3600) div 60, second = secs mod 60,
                          microsecond = t mod 1000000, tzinfo = Some 0\<rparr>)
           else Inl OverflowError)"

subsection \<open>Rendering\<close>

definition digit_char :: "nat \<Rightarrow> char" where
  "digit_char n = (''0123456789'' ! (n mod 10))"

function str_nat :: "nat \<Rightarrow> string" where
  "str_nat n = (if n < 10 then [digit_char n] else str_nat (n div 10) @ [digit_char n])"
  by pat_completeness auto
termination
  by (relation "measure id") auto

definition str_int :: "int \<Rightarrow> string" where
  "str_int i = (if i < 0 then CHR ''-'' # str_nat (nat (- i)) else str_nat (nat i))"

definition pad2 :: "int \<Rightarrow> string" where
  "pad2 i = (if 0 \<le> i \<and> i < 10 then CHR ''0'' # str_int i else str_int i)"

definition MONTH_NAMES :: "string list" where
  "MONTH_NAMES = [''January'', ''February'', ''March'', ''April'', ''May'', ''June'', ''July'',
                  ''August'', ''September'', ''October'', ''November'', ''December'']"

text \<open>
  The directives of \<^verbatim>\<open>strftime\<close> in the C locale that the format string of the
  application uses; \<^verbatim>\<open>%I\<close> is the hour on the 12-hour clock, 12 at midnight and noon.
\<close>

definition directive :: "datetime \<Rightarrow> char \<Rightarrow> string" where
  "directive dt c =
     (if c = CHR ''B'' then MONTH_NAMES ! nat (month dt - 1)
      else if c = CHR ''Y'' then str_int (year dt)
      else if c = CHR ''I'' then pad2 (if hour dt mod 12 = 0 then 12 else hour dt mod 12)
      else if c = CHR ''M'' then pad2 (minute dt)
      else if c = CHR ''p'' then (if hour dt < 12 then ''AM'' else ''PM'')
      else [CHR ''%'', c])"

fun strftime :: "datetime \<Rightarrow> string \<Rightarrow> string" where
  "strftime dt [] = []"
| "strftime dt [c] = [c]"
| "strftime dt (c # d # rest) =
     (if c = CHR ''%'' then directive dt d @ strftime dt rest
      else c # strftime dt (d # rest))"

section \<open>The timestamp normaliser\<close>

definition endswith_Z :: "string \<Rightarrow> bool" where
  "endswith_Z s = (s \<noteq> [] \<and> last s = CHR ''Z'')"

text \<open>\<^verbatim>\<open>iso_ts.replace("Z", "+00:00")\<close> replaces every \<^verbatim>\<open>Z\<close> of the string.\<close>

definition replace_Z :: "string \<Rightarrow> string" where
  "replace_Z s = concat (map (\<lambda>c. if c = CHR ''Z'' then ''+00:00'' else [c]) s)"

text \<open>
  The ordinal suffix of a day, lines 77 to 80: the dictionary
  \<^verbatim>\<open>{1: "st", 2: "nd", 3: "rd"}\<close> read with default \<^verbatim>\<open>"th"\<close>.
\<close>

definition suffix :: "int \<Rightarrow> string" where
  "suffix d =
     (if 11 \<le> d \<and> d \<le> 13 then ''th''
      else (case map_of [(1, ''st''), (2, ''nd''), (3, ''rd'')] (d mod 10) of
              None \<Rightarrow> ''th''
            | Some s \<Rightarrow> s))"

text \<open>\<^verbatim>\<open>format_timestamp\<close> (app.py, lines 56 to 88), on a host with the given local time.\<close>

definition format_timestamp :: "(datetime \<Rightarrow> int) \<Rightarrow> string \<Rightarrow> py_exn + string" where
  "format_timestamp local_gmtoff iso_ts =
     (let ts_fixed = (if endswith_Z iso_ts then replace_Z iso_ts else iso_ts)
      in case fromisoformat ts_fixed of
           Inl e \<Rightarrow> Inl e
         | Inr dt \<Rightarrow>
             (case astimezone_utc local_gmtoff dt of
                Inl e \<Rightarrow> Inl e
              | Inr dt_utc \<Rightarrow>
                  let rest = strftime dt_utc ''%B %Y - %I:%M %p UTC''
                  in Inr (str_int (day dt_utc) @ suffix (day dt_utc) @ '' '' @ rest)))"

section \<open>JSON payloads\<close>

text \<open>
  What \<^verbatim>\<open>request.get_json\<close> returns: \<^verbatim>\<open>None\<close>, \<^verbatim>\<open>bool\<close>, \<^verbatim>\<open>int\<close>,
  \<^verbatim>\<open>float\<close>, \<^verbatim>\<open>str\<close>, \<^verbatim>\<open>list\<close> and \<^verbatim>\<open>dict\<close> values. A dictionary is
  the list of its items, looked up by key.
\<close>

datatype json =
    JNull
  | JBool bool
  | JInt int
  | JFloat rat
  | JStr string
  | JArr "json list"
  | JObj "(string \<times> json) list"

text \<open>
  \<^verbatim>\<open>v[key]\<close> with a string key: a dictionary raises \<^verbatim>\<open>KeyError\<close> for a key
  it does not have; every other value raises \<^verbatim>\<open>TypeError\<close>.
\<close>

definition subscript :: "json \<Rightarrow> string \<Rightarrow> py_exn + json" where
  "subscript v key =
     (case v of
        JObj items \<Rightarrow> (case map_of items key of None \<Rightarrow> Inl KeyError | Some x \<Rightarrow> Inr x)
      | _ \<Rightarrow> Inl TypeError)"

text \<open>\<^verbatim>\<open>v.get(key, default)\<close>: only a dictionary has the method.\<close>

definition dict_get :: "json \<Rightarrow> string \<Rightarrow> json \<Rightarrow> py_exn + json" where
  "dict_get v key dflt =
     (case v of
        JObj items \<Rightarrow> (case map_of items key of None \<Rightarrow> Inr dflt | Some x \<Rightarrow> Inr x)
      | _ \<Rightarrow> Inl AttributeError)"

text \<open>\<^verbatim>\<open>v.split("/")[-1]\<close>: only a string has the method; its split is never empty.\<close>

definition last_segment :: "json \<Rightarrow> py_exn + string" where
  "last_segment v =
     (case v of
        JStr s \<Rightarrow> Inr (last (split_on CHR ''/'' s))
      | _ \<Rightarrow> Inl AttributeError)"

text \<open>The truth value of a JSON value in a condition.\<close>

definition truthy :: "json \<Rightarrow> bool" where
  "truthy v =
     (case v of
        JNull \<Rightarrow> False
      | JBool b \<Rightarrow> b
      | JInt i \<Rightarrow> i \<noteq> 0
      | JFloat r \<Rightarrow> r \<noteq> 0
      | JStr s \<Rightarrow> s \<noteq> []
      | JArr xs \<Rightarrow> xs \<noteq> []
      | JObj items \<Rightarrow> items \<noteq> [])"

definition bind_exn :: "py_exn + 'a \<Rightarrow> ('a \<Rightarrow> py_exn + 'b) \<Rightarrow> py_exn + 'b" where
  "bind_exn r f = (case r of Inl e \<Rightarrow> Inl e | Inr x \<Rightarrow> f x)"

section \<open>The webhook handler\<close>

text \<open>
  What the handler reads from its surroundings: the host's local time (see
  \<^const>\<open>astimezone_utc\<close>), the text \<^verbatim>\<open>str(v)\<close> of a value that is no string
  (the interpreter's \<^verbatim>\<open>repr\<close> of numbers, lists and dictionaries), and the clock
  behind \<^verbatim>\<open>datetime.utcnow()\<close>.
\<close>

record runtime =
  local_gmtoff :: "datetime \<Rightarrow> int"
  repr :: "json \<Rightarrow> string"
  utcnow :: datetime

text \<open>A value inside an f-string: a string is itself.\<close>

definition py_str :: "runtime \<Rightarrow> json \<Rightarrow> string" where
  "py_str rt v = (case v of JStr s \<Rightarrow> s | _ \<Rightarrow> repr rt v)"

text \<open>
  \<^verbatim>\<open>format_timestamp(ts)\<close> on a payload value: \<^verbatim>\<open>iso_ts.endswith\<close> is an
  \<^verbatim>\<open>AttributeError\<close> on everything but a string.
\<close>

definition format_timestamp_value :: "runtime \<Rightarrow> json \<Rightarrow> py_exn + string" where
  "format_timestamp_value rt ts =
     (case ts of
        JStr s \<Rightarrow> format_timestamp (local_gmtoff rt) s
      | _ \<Rightarrow> Inl AttributeError)"

text \<open>The request as the handler sees it, and the documents of the collection.\<close>

record request =
  data :: bytes
  x_hub_signature :: "string option"
  x_github_event :: "string option"
  get_json :: "json option"

record doc =
  inserted_at :: datetime
  formatted :: string

datatype outcome =
    Response nat string
  | Aborted nat string
  | Raised py_exn

definition quoted :: "string \<Rightarrow> string" where
  "quoted s = CHR 0x22 # s @ [CHR 0x22]"

text \<open>The body of the first \<^verbatim>\<open>try\<close> of the push branch, lines 132 to 135.\<close>

definition push_fields :: "json \<Rightarrow> py_exn + (json \<times> string \<times> json)" where
  "push_fields payload =
     bind_exn (subscript payload ''pusher'') (\<lambda>pusher.
     bind_exn (subscript pusher ''name'') (\<lambda>author.
     bind_exn (subscript payload ''ref'') (\<lambda>ref.
     bind_exn (last_segment ref) (\<lambda>to_branch.
     bind_exn (subscript payload ''head_commit'') (\<lambda>head_commit.
     bind_exn (subscript head_commit ''timestamp'') (\<lambda>ts.
     Inr (author, to_branch, ts)))))))"

text \<open>
  The body of the first \<^verbatim>\<open>try\<close> of the two pull-request branches, lines 156 to 159
  and 177 to 180; they differ in the key of the timestamp.
\<close>

definition pr_fields :: "json \<Rightarrow> string \<Rightarrow> py_exn + (json \<times> json \<times> json \<times> json)" where
  "pr_fields pr ts_key =
     bind_exn (subscript pr ''user'') (\<lambda>user.
     bind_exn (subscript user ''login'') (\<lambda>author.
     bind_exn (subscript pr ''head'') (\<lambda>head.
     bind_exn (subscript head ''ref'') (\<lambda>from_branch.
     bind_exn (subscript pr ''base'') (\<lambda>base.
     bind_exn (subscript base ''ref'') (\<lambda>to_branch.
     bind_exn (subscript pr ts_key) (\<lambda>ts.
     Inr (author, from_branch, to_branch, ts))))))))"

text \<open>Lines 204 and 205: the document is inserted, and the reply is 201.\<close>

definition insert_and_reply :: "runtime \<Rightarrow> string \<Rightarrow> doc list \<Rightarrow> outcome \<times> doc list" where
  "insert_and_reply rt formatted_string collection =
     (Response 201 ''stored'',
      collection @ [\<lparr>inserted_at = utcnow rt, formatted = formatted_string\<rparr>])"

definition handle_push :: "runtime \<Rightarrow> json \<Rightarrow> doc list \<Rightarrow> outcome \<times> doc list" where
  "handle_push rt payload collection =
     (case push_fields payload of
        Inl e \<Rightarrow>
          if e = KeyError then (Response 200 ''ignored-key-error'', collection)
          else (Raised e, collection)
      | Inr (author, to_branch, ts) \<Rightarrow>
          (case format_timestamp_value rt ts of
             Inl e \<Rightarrow> (Response 200 ''error-formatting'', collection)
           | Inr t \<Rightarrow>
               insert_and_reply rt
                 (quoted (py_str rt author) @ '' pushed to '' @ quoted to_branch @ '' on '' @ t)
                 collection))"

definition handle_opened :: "runtime \<Rightarrow> json \<Rightarrow> doc list \<Rightarrow> outcome \<times> doc list" where
  "handle_opened rt pr collection =
     (case pr_fields pr ''created_at'' of
        Inl e \<Rightarrow>
          if e = KeyError then (Response 200 ''ignored-key-error'', collection)
          else (Raised e, collection)
      | Inr (author, from_branch, to_branch, ts) \<Rightarrow>
          (case format_timestamp_value rt ts of
             Inl e \<Rightarrow> (Response 200 ''error-formatting'', collection)
           | Inr t \<Rightarrow>
               insert_and_reply rt
                 (quoted (py_str rt author) @ '' submitted a pull request from ''
                    @ quoted (py_str rt from_branch) @ '' to '' @ quoted (py_str rt to_branch)
                    @ '' on '' @ t)
                 collection))"

definition handle_merged :: "runtime \<Rightarrow> json \<Rightarrow> doc list \<Rightarrow> outcome \<times> doc list" where
  "handle_merged rt pr collection =
     (case pr_fields pr ''merged_at'' of
        Inl e \<Rightarrow>
          if e = KeyError then (Response 200 ''ignored-key-error'', collection)
          else (Raised e, collection)
      | Inr (author, from_branch, to_branch, ts) \<Rightarrow>
          (case format_timestamp_value rt ts of
             Inl e \<Rightarrow> (Response 200 ''error-formatting'', collection)
           | Inr t \<Rightarrow>
               insert_and_reply rt
                 (quoted (py_str rt author) @ '' merged branch ''
                    @ quoted (py_str rt from_branch) @ '' to '' @ quoted (py_str rt to_branch)
                    @ '' on '' @ t)
                 collection))"

definition handle_pull_request :: "runtime \<Rightarrow> json \<Rightarrow> doc list \<Rightarrow> outcome \<times> doc list" where
  "handle_pull_request rt payload collection =
     (case dict_get payload ''action'' (JStr []) of
        Inl e \<Rightarrow> (Raised e, collection)
      | Inr action \<Rightarrow>
          (case dict_get payload ''pull_request'' (JObj []) of
             Inl e \<Rightarrow> (Raised e, collection)
           | Inr pr \<Rightarrow>
               if action = JStr ''opened'' then handle_opened rt pr collection
               else if action = JStr ''closed'' then
                 (case dict_get pr ''merged'' (JBool False) of
                    Inl e \<Rightarrow> (Raised e, collection)
                  | Inr merged \<Rightarrow>
                      if truthy merged then handle_merged rt pr collection
                      else (Response 200 ''ignored-pull-action'', collection))
               else (Response 200 ''ignored-pull-action'', collection)))"

text \<open>
  \<^verbatim>\<open>handle_webhook\<close> (app.py, lines 106 to 205), from the request and the collection
  to the outcome and the collection afterwards. \<^verbatim>\<open>get_json(silent=True)\<close> gives
  \<^verbatim>\<open>None\<close> for a body that is no JSON and for the JSON text \<^verbatim>\<open>null\<close>.
\<close>

definition handle_webhook ::
  "runtime \<Rightarrow> string \<Rightarrow> request \<Rightarrow> doc list \<Rightarrow> outcome \<times> doc list" where
  "handle_webhook rt SECRET_TOKEN req collection =
     (case verify_signature SECRET_TOKEN (data req) (x_hub_signature req) of
        Inl e \<Rightarrow> (Raised e, collection)
      | Inr ok \<Rightarrow>
          if \<not> ok then (Aborted 403 ''Invalid signature'', collection)
          else
            let event_type = (case x_github_event req of None \<Rightarrow> [] | Some t \<Rightarrow> t)
            in (case get_json req of
                  None \<Rightarrow> (Response 400 ''no-json-payload'', collection)
                | Some payload \<Rightarrow>
                    if payload = JNull then (Response 400 ''no-json-payload'', collection)
                    else if event_type = ''push'' then handle_push rt payload collection
                    else if event_type = ''pull_request''
                    then handle_pull_request rt payload collection
                    else (Response 200 ''ignored-event'', collection)))"


definition example_request :: "string \<Rightarrow> json \<Rightarrow> request" where
  "example_request event payload =
     \<lparr>data = [], x_hub_signature = None, x_github_event = Some event,
      get_json = Some payload\<rparr>"







section \<open>Properties of the signature verifier\<close>






















text \<open>
  C2. With an empty secret every header value, absent or present, verifies; with any
  secret an absent header verifies.
\<close>

theorem verify_signature_permissive:
  "verify_signature [] body hdr = Inr True
   \<and> verify_signature SECRET_TOKEN body None = Inr True"
  by (simp add: verify_signature_def split: option.splits)




section \<open>Properties of the timestamp normaliser\<close>


text \<open>
  C10. The timestamp \<^verbatim>\<open>2025-06-05T01:15:53\<close> has neither a \<^verbatim>\<open>Z\<close> nor an offset. It
  parses to a naive value and the normaliser does not fail on it: it reads the value as
  local time of the host, so a host on UTC and a host five and a half hours east of UTC
  return different strings for it.
\<close>

theorem naive_timestamp_host_dependent:
  "fromisoformat ''2025-06-05T01:15:53''
     = Inr \<lparr>year = 2025, month = 6, day = 5, hour = 1, minute = 15, second = 53,
            microsecond = 0, tzinfo = None\<rparr>
   \<and> format_timestamp (\<lambda>_. 0) ''2025-06-05T01:15:53'' = Inr ''5th June 2025 - 01:15 AM UTC''
   \<and> format_timestamp (\<lambda>_. 19800) ''2025-06-05T01:15:53''
       = Inr ''4th June 2025 - 07:45 PM UTC''"
  by code_simp


section \<open>Properties of the webhook handler\<close>

lemmas handler_defs =
  handle_webhook_def handle_push_def handle_pull_request_def handle_opened_def
  handle_merged_def push_fields_def pr_fields_def subscript_def dict_get_def
  last_segment_def bind_exn_def truthy_def insert_and_reply_def
  format_timestamp_value_def py_str_def quoted_def example_request_def
  verify_signature_def

text \<open>
  C9. A push whose \<^verbatim>\<open>pusher\<close> is a string, and a push whose \<^verbatim>\<open>ref\<close> is a number,
  do not take the missing-key branch: the \<^verbatim>\<open>TypeError\<close>, respectively the
  \<^verbatim>\<open>AttributeError\<close>, leaves the handler, which answers neither
  \<^verbatim>\<open>ignored-key-error\<close> nor anything else, and stores nothing.
\<close>

theorem push_wrong_type_not_caught:
  "handle_webhook rt [] (example_request ''push''
      (JObj [(''pusher'', JStr ''alice''), (''ref'', JStr ''refs/heads/main''),
             (''head_commit'', JObj [(''timestamp'', JStr ''2021-04-01T21:30:00Z'')])]))
      collection = (Raised TypeError, collection)
   \<and> handle_webhook rt [] (example_request ''push''
      (JObj [(''pusher'', JObj [(''name'', JStr ''alice'')]), (''ref'', JInt 7),
             (''head_commit'', JObj [(''timestamp'', JStr ''2021-04-01T21:30:00Z'')])]))
      collection = (Raised AttributeError, collection)"
  by (simp add: handler_defs)

text \<open>
  C3 at a push that deletes a branch, where \<^verbatim>\<open>head_commit\<close> is \<^verbatim>\<open>null\<close> and so
  \<^verbatim>\<open>head_commit.timestamp\<close> is missing: the handler does not ignore the delivery
  but lets a \<^verbatim>\<open>TypeError\<close> escape.
\<close>

theorem push_null_head_commit_raises:
  "handle_webhook rt [] (example_request ''push''
      (JObj [(''pusher'', JObj [(''name'', JStr ''alice'')]), (''ref'', JStr ''refs/heads/main''),
             (''head_commit'', JNull)]))
      collection = (Raised TypeError, collection)"
  by (simp add: handler_defs)












lemma verify_then_dispatch:
  assumes "verify_signature SECRET_TOKEN (data req) (x_hub_signature req) = Inr True"
    and "get_json req = Some (JObj items)"
  shows "handle_webhook rt SECRET_TOKEN req collection =
         (if x_github_event req = Some ''push'' then handle_push rt (JObj items) collection
          else if x_github_event req = Some ''pull_request''
          then handle_pull_request rt (JObj items) collection
          else (Response 200 ''ignored-event'', collection))"
  using assms by (simp add: handle_webhook_def split: option.splits)

lemma push_fields_present:
  assumes "map_of items ''pusher'' = Some (JObj pusher)" "map_of pusher ''name'' = Some author"
    and "map_of items ''ref'' = Some (JStr ref)"
    and "map_of items ''head_commit'' = Some (JObj head_commit)"
    and "map_of head_commit ''timestamp'' = Some ts"
  shows "push_fields (JObj items) = Inr (author, last (split_on CHR ''/'' ref), ts)"
  using assms by (simp add: push_fields_def subscript_def bind_exn_def last_segment_def)

lemma handle_push_stored:
  assumes "verify_signature SECRET_TOKEN (data req) (x_hub_signature req) = Inr True"
    and "x_github_event req = Some ''push''"
    and "get_json req = Some (JObj items)"
    and "map_of items ''pusher'' = Some (JObj pusher)" "map_of pusher ''name'' = Some author"
    and "map_of items ''ref'' = Some (JStr ref)"
    and "map_of items ''head_commit'' = Some (JObj head_commit)"
    and "map_of head_commit ''timestamp'' = Some (JStr ts)"
    and "format_timestamp (local_gmtoff rt) ts = Inr t"
  shows "handle_webhook rt SECRET_TOKEN req collection =
         (Response 201 ''stored'',
          collection @ [\<lparr>inserted_at = utcnow rt,
                         formatted = quoted (py_str rt author) @ '' pushed to ''
                           @ quoted (last (split_on CHR ''/'' ref)) @ '' on '' @ t\<rparr>])"
proof -
  have pf: "push_fields (JObj items) = Inr (author, last (split_on CHR ''/'' ref), JStr ts)"
    using assms(4-8) by (rule push_fields_present)
  have fv: "format_timestamp_value rt (JStr ts) = Inr t"
    using assms(9) by (simp add: format_timestamp_value_def)
  have "handle_push rt (JObj items) collection =
        insert_and_reply rt
          (quoted (py_str rt author) @ '' pushed to ''
             @ quoted (last (split_on CHR ''/'' ref)) @ '' on '' @ t) collection"
    unfolding handle_push_def by (simp only: pf fv sum.case prod.case)
  then show ?thesis
    unfolding verify_then_dispatch [OF assms(1,3)] insert_and_reply_def
    using assms(2) by simp
qed

text \<open>A push in which a key of a mapping is missing and every value met is well typed.\<close>

lemma handle_push_missing_key:
  assumes "verify_signature SECRET_TOKEN (data req) (x_hub_signature req) = Inr True"
    and "x_github_event req = Some ''push''"
    and "get_json req = Some (JObj items)"
    and "map_of items ''pusher'' = None
         \<or> (\<exists>pusher. map_of items ''pusher'' = Some (JObj pusher)
               \<and> (map_of pusher ''name'' = None
                   \<or> map_of items ''ref'' = None
                   \<or> (\<exists>ref. map_of items ''ref'' = Some (JStr ref)
                         \<and> (map_of items ''head_commit'' = None
                             \<or> (\<exists>hc. map_of items ''head_commit'' = Some (JObj hc)
                                   \<and> map_of hc ''timestamp'' = None)))))"
  shows "handle_webhook rt SECRET_TOKEN req collection =
         (Response 200 ''ignored-key-error'', collection)"
proof -
  have "push_fields (JObj items) = Inl KeyError"
    using assms(4)
    by (auto simp: push_fields_def subscript_def bind_exn_def last_segment_def
        split: option.splits)
  then show ?thesis
    unfolding verify_then_dispatch [OF assms(1,3)] using assms(2)
    by (simp add: handle_push_def)
qed














end
